theory Spec2Isabelle
  imports Main "HOL-Library.Sublist"
begin

section \<open>Data model\<close>

text \<open>
  A cocktail as the backend serialises it and the components read it
  (\<^verbatim>\<open>cocktail.id\<close>, \<^verbatim>\<open>cocktail.name\<close>, ...). Optional fields are
  \<open>None\<close> when the property is absent or \<^verbatim>\<open>null\<close>. The field
  \<^verbatim>\<open>id\<close> is called \<open>cocktail_id\<close> here, the name it has in the request body.
\<close>

record cocktail =
  cocktail_id :: "int option"
  name :: string
  ingredients :: "string list"
  description :: string
  music_ambiance :: "string option"
  image_prompt :: "string option"
  user_prompt :: string
  image_path :: "string option"
  created_at :: string

text \<open>
  Truthiness of an optional string, as JavaScript's \<^verbatim>\<open>if (x)\<close> and Python's
  \<^verbatim>\<open>if x:\<close> decide it: absent, \<^verbatim>\<open>null\<close>/\<^verbatim>\<open>None\<close> and the empty string
  are falsy.
\<close>

definition truthy :: "string option \<Rightarrow> bool" where
  "truthy v = (case v of None \<Rightarrow> False | Some s \<Rightarrow> s \<noteq> [])"


definition default_image :: string where
  "default_image = ''/default.webp''"


section \<open>The CocktailDetail component\<close>

text \<open>
  The component with the \<^verbatim>\<open>source\<close> property
  (\<^verbatim>\<open>const CocktailDetail = ({ cocktail, onBack, source = 'history' })\<close>).
  Its four \<^verbatim>\<open>useState\<close> cells, all starting at \<^verbatim>\<open>null\<close> or \<^verbatim>\<open>false\<close>:
\<close>

text \<open>
  The three messages \<^verbatim>\<open>setImageError\<close> is called with in \<^verbatim>\<open>generateImage\<close>
  (French texts shown to the user): the service is temporarily unavailable (the
  caught error's message includes \<^verbatim>\<open>'500'\<close>), the generation failed (any other
  caught error), and the image service is not configured (no \<^verbatim>\<open>image_url\<close> in
  the answer).
\<close>

datatype image_error =
    ServiceUnavailable
  | GenerationError
  | NotConfigured

record detail_state =
  generatedImage :: "string option"
  isGeneratingImage :: bool
  imageError :: "image_error option"
  showDefaultImage :: bool

definition initial_state :: detail_state where
  "initial_state =
     \<lparr>generatedImage = None, isGeneratingImage = False, imageError = None,
      showDefaultImage = False\<rparr>"

text \<open>
  What the awaited \<^verbatim>\<open>fetch\<close> and \<^verbatim>\<open>response.json()\<close> can do: reject with an
  error carrying a message, answer with \<^verbatim>\<open>response.ok\<close> false, or answer with a
  body whose \<^verbatim>\<open>image_url\<close> is read.
\<close>

datatype fetch_outcome =
    Rejected string
  | NotOk
  | OkJson "string option"

text \<open>
  The observable effects of the component: the POST to
  \<^verbatim>\<open>/api/cocktails/generate-image\<close> with the cocktail's id, and the assignment
  \<^verbatim>\<open>cocktail.image_path = data.image_url\<close>.
\<close>

datatype event =
    Fetch int
  | SetImagePath string

text \<open>
  \<^verbatim>\<open>generateImage\<close>: returns at once without an id; otherwise sends the request
  and handles its outcome. The \<^verbatim>\<open>try\<close>/\<^verbatim>\<open>catch\<close>/\<^verbatim>\<open>finally\<close> is written
  out: a response that is not ok throws the fixed message (written here without
  its accents), which \<^verbatim>\<open>catch\<close> handles like a rejection.
\<close>

definition catch_error :: "string \<Rightarrow> detail_state \<Rightarrow> detail_state" where
  "catch_error message st =
     st\<lparr>imageError :=
          (if sublist ''500'' message then Some ServiceUnavailable
           else Some GenerationError),
        showDefaultImage := True\<rparr>"

definition generateImage ::
  "fetch_outcome \<Rightarrow> cocktail \<times> detail_state \<Rightarrow> (cocktail \<times> detail_state) \<times> event list" where
  "generateImage outcome cs =
     (case cs of (c, st) \<Rightarrow>
      (case cocktail_id c of
         None \<Rightarrow> ((c, st), [])
       | Some n \<Rightarrow>
           if n = 0 then ((c, st), [])
           else
             let st1 = st\<lparr>isGeneratingImage := True, imageError := None\<rparr> in
             (case outcome of
                Rejected message \<Rightarrow>
                  ((c, (catch_error message st1)\<lparr>isGeneratingImage := False\<rparr>), [Fetch n])
              | NotOk \<Rightarrow>
                  ((c, (catch_error ''Erreur lors de la generation de l'image'' st1)
                         \<lparr>isGeneratingImage := False\<rparr>), [Fetch n])
              | OkJson image_url \<Rightarrow>
                  (case image_url of
                     None \<Rightarrow>
                       ((c, st1\<lparr>imageError := Some NotConfigured,
                                showDefaultImage := True, isGeneratingImage := False\<rparr>),
                        [Fetch n])
                   | Some url \<Rightarrow>
                       if url = [] then
                         ((c, st1\<lparr>imageError := Some NotConfigured,
                                  showDefaultImage := True, isGeneratingImage := False\<rparr>),
                          [Fetch n])
                       else
                         ((c\<lparr>image_path := Some url\<rparr>,
                           st1\<lparr>generatedImage := Some url, showDefaultImage := False,
                               isGeneratingImage := False\<rparr>),
                          [Fetch n, SetImagePath url])))))"

text \<open>
  The body of the \<^verbatim>\<open>useEffect\<close>, run when the component is shown for a cocktail:
  a stored \<^verbatim>\<open>image_path\<close> is displayed; otherwise an image is generated only
  for \<^verbatim>\<open>source === 'generator'\<close>; otherwise the default image is shown.
\<close>

definition useEffect ::
  "string \<Rightarrow> fetch_outcome \<Rightarrow> cocktail \<times> detail_state \<Rightarrow> (cocktail \<times> detail_state) \<times> event list" where
  "useEffect source outcome cs =
     (case cs of (c, st) \<Rightarrow>
        if truthy (image_path c) then
          ((c, st\<lparr>generatedImage := image_path c, showDefaultImage := False\<rparr>), [])
        else if source = ''generator'' \<and> truthy (image_prompt c) \<and> \<not> truthy (generatedImage st) then
          generateImage outcome (c, st)
        else ((c, st\<lparr>showDefaultImage := True\<rparr>), []))"

text \<open>
  The \<^verbatim>\<open>src\<close> of the rendered image:
  \<^verbatim>\<open>(generatedImage || showDefaultImage) && <img src={generatedImage || '/default.webp'}>\<close>;
  \<open>None\<close> when no image element is rendered.
\<close>

definition img_src :: "detail_state \<Rightarrow> string option" where
  "img_src st =
     (if truthy (generatedImage st) then generatedImage st
      else if showDefaultImage st then Some default_image
      else None)"

definition fetches :: "event list \<Rightarrow> event list" where
  "fetches evs = filter (\<lambda>e. case e of Fetch _ \<Rightarrow> True | SetImagePath _ \<Rightarrow> False) evs"



text \<open>
  \<^verbatim>\<open>generateImage\<close> is asynchronous: what it does before
  \<^verbatim>\<open>await fetch(...)\<close>, and what it does once the response is there. Before:
  nothing without an id; otherwise the two setters, and the request leaves with
  the id (\<open>Some n\<close>).
\<close>

definition generateImage_send :: "cocktail \<times> detail_state \<Rightarrow> detail_state \<times> int option" where
  "generateImage_send cs =
     (case cs of (c, st) \<Rightarrow>
        (case cocktail_id c of
           None \<Rightarrow> (st, None)
         | Some n \<Rightarrow>
             if n = 0 then (st, None)
             else (st\<lparr>isGeneratingImage := True, imageError := None\<rparr>, Some n)))"

text \<open>
  After the \<^verbatim>\<open>await\<close>: the rest of the \<^verbatim>\<open>try\<close>, the \<^verbatim>\<open>catch\<close> and the
  \<^verbatim>\<open>finally\<close>, on the cocktail object and the state as they are by then. Nothing
  is tested again: a truthy \<^verbatim>\<open>image_url\<close> is displayed and assigned to
  \<^verbatim>\<open>cocktail.image_path\<close>.
\<close>

definition generateImage_receive ::
  "fetch_outcome \<Rightarrow> cocktail \<times> detail_state \<Rightarrow> (cocktail \<times> detail_state) \<times> event list" where
  "generateImage_receive outcome cs =
     (case cs of (c, st) \<Rightarrow>
        (case outcome of
           Rejected message \<Rightarrow>
             ((c, (catch_error message st)\<lparr>isGeneratingImage := False\<rparr>), [])
         | NotOk \<Rightarrow>
             ((c, (catch_error ''Erreur lors de la generation de l'image'' st)
                    \<lparr>isGeneratingImage := False\<rparr>), [])
         | OkJson image_url \<Rightarrow>
             (case image_url of
                None \<Rightarrow>
                  ((c, st\<lparr>imageError := Some NotConfigured,
                          showDefaultImage := True, isGeneratingImage := False\<rparr>), [])
              | Some url \<Rightarrow>
                  if url = [] then
                    ((c, st\<lparr>imageError := Some NotConfigured,
                            showDefaultImage := True, isGeneratingImage := False\<rparr>), [])
                  else
                    ((c\<lparr>image_path := Some url\<rparr>,
                      st\<lparr>generatedImage := Some url, showDefaultImage := False,
                         isGeneratingImage := False\<rparr>),
                     [SetImagePath url]))))"

text \<open>
  The body of the effect up to the point where \<^verbatim>\<open>generateImage()\<close> awaits:
  the new state, and the id the request left with, if one left.
\<close>

definition useEffect_start :: "string \<Rightarrow> cocktail \<times> detail_state \<Rightarrow> detail_state \<times> int option" where
  "useEffect_start source cs =
     (case cs of (c, st) \<Rightarrow>
        if truthy (image_path c) then
          (st\<lparr>generatedImage := image_path c, showDefaultImage := False\<rparr>, None)
        else if source = ''generator'' \<and> truthy (image_prompt c) \<and> \<not> truthy (generatedImage st) then
          generateImage_send (c, st)
        else (st\<lparr>showDefaultImage := True\<rparr>, None))"

text \<open>
  The component over time. The cocktail object belongs to the parent and outlives
  the component; the state cells belong to the mounted instance; \<open>in_flight\<close>
  lists the requests that have left and are not answered yet, each with the
  instance that sent it. Nothing in the component keeps the effect from running
  while a request is in flight, and nothing cancels a request.
\<close>

record component =
  cocktail_of :: cocktail
  state_of :: detail_state
  current_instance :: nat
  in_flight :: "nat list"


text \<open>
  What can happen: the effect runs, for the \<^verbatim>\<open>source\<close> the component is rendered
  with, on the mounted instance or (\<open>True\<close>) on a new one, whose state cells
  start from their initial values; or the request at a position of \<open>in_flight\<close>
  is answered. The answer's setters act on the state of the instance that sent
  the request, so they are lost when that instance is no longer the mounted one;
  the assignment to \<^verbatim>\<open>cocktail.image_path\<close> is made in either case.
\<close>

datatype action =
    Run bool string
  | Respond nat fetch_outcome

fun step :: "action \<Rightarrow> component \<Rightarrow> component \<times> event list" where
  "step (Run remount source) cfg =
     (let i = (if remount then Suc (current_instance cfg) else current_instance cfg);
          st = (if remount then initial_state else state_of cfg)
      in (case useEffect_start source (cocktail_of cfg, st) of
            (st1, None) \<Rightarrow> (cfg\<lparr>state_of := st1, current_instance := i\<rparr>, [])
          | (st1, Some n) \<Rightarrow>
              (cfg\<lparr>state_of := st1, current_instance := i, in_flight := in_flight cfg @ [i]\<rparr>,
               [Fetch n])))"
| "step (Respond k outcome) cfg =
     (if k < length (in_flight cfg) then
        (case generateImage_receive outcome (cocktail_of cfg, state_of cfg) of
           ((c1, st1), evs) \<Rightarrow>
             (cfg\<lparr>cocktail_of := c1,
                  state_of := (if in_flight cfg ! k = current_instance cfg then st1 else state_of cfg),
                  in_flight := take k (in_flight cfg) @ drop (Suc k) (in_flight cfg)\<rparr>,
              evs))
      else (cfg, []))"

fun execute :: "action list \<Rightarrow> component \<Rightarrow> component \<times> event list" where
  "execute [] cfg = (cfg, [])"
| "execute (a # rest) cfg =
     (case step a cfg of
        (cfg1, evs1) \<Rightarrow> (case execute rest cfg1 of (cfg2, evs2) \<Rightarrow> (cfg2, evs1 @ evs2)))"


text \<open>
  The earlier \<^verbatim>\<open>CocktailDetail.jsx\<close> sends the prompt itself:
  \<^verbatim>\<open>if (!cocktail.image_prompt) return\<close>, then
  \<^verbatim>\<open>body: JSON.stringify({ prompt: cocktail.image_prompt })\<close>. This is the
  \<^verbatim>\<open>prompt\<close> of the request body, \<open>None\<close> when no request is sent.
\<close>

definition generateImage_request :: "cocktail \<Rightarrow> string option" where
  "generateImage_request c = (if truthy (image_prompt c) then image_prompt c else None)"


section \<open>The service selection of the image generation\<close>

text \<open>
  \<^verbatim>\<open>generate_image(self, cocktail_data)\<close> as the integration guide gives it. A
  service object has \<^verbatim>\<open>generate_cocktail_image\<close>, which returns the path of the
  image or \<^verbatim>\<open>None\<close>; the Stability AI service also has \<^verbatim>\<open>is_available()\<close>.
  Either attribute of \<^verbatim>\<open>self\<close> may be \<^verbatim>\<open>None\<close>.
\<close>

record image_service =
  generate_cocktail_image :: "cocktail \<Rightarrow> string option"

record stability_ai_service = image_service +
  is_available :: bool

record mistral_service =
  stability_service :: "stability_ai_service option"
  dynapictures_service :: "image_service option"

datatype provider = StabilityAI | DynaPictures

text \<open>
  The first block of \<^verbatim>\<open>generate_image\<close>: the result when it is truthy (the
  block returns it), and the calls of \<^verbatim>\<open>generate_cocktail_image\<close> it made.
\<close>

definition try_stability :: "mistral_service \<Rightarrow> cocktail \<Rightarrow> string option \<times> provider list" where
  "try_stability self cocktail_data =
     (case stability_service self of
        None \<Rightarrow> (None, [])
      | Some s \<Rightarrow>
          if is_available s then
            (let result = generate_cocktail_image s cocktail_data
             in if truthy result then (result, [StabilityAI]) else (None, [StabilityAI]))
          else (None, []))"

text \<open>The second block: no availability is asked of the DynaPictures service.\<close>

definition try_dynapictures :: "mistral_service \<Rightarrow> cocktail \<Rightarrow> string option \<times> provider list" where
  "try_dynapictures self cocktail_data =
     (case dynapictures_service self of
        None \<Rightarrow> (None, [])
      | Some d \<Rightarrow>
          (let result = generate_cocktail_image d cocktail_data
           in if truthy result then (result, [DynaPictures]) else (None, [DynaPictures])))"

text \<open>
  The returned reference, with the log of the services whose
  \<^verbatim>\<open>generate_cocktail_image\<close> was called, in the order of the calls.
\<close>

definition generate_image :: "mistral_service \<Rightarrow> cocktail \<Rightarrow> string \<times> provider list" where
  "generate_image self cocktail_data =
     (case try_stability self cocktail_data of
        (Some result, log1) \<Rightarrow> (result, log1)
      | (None, log1) \<Rightarrow>
          (case try_dynapictures self cocktail_data of
             (Some result, log2) \<Rightarrow> (result, log1 @ log2)
           | (None, log2) \<Rightarrow> (''/default.webp'', log1 @ log2)))"

text \<open>
  The chain as a list of adapters, in the priority order of the source: the
  services that are configured, each with the availability the selection asks of
  it (nothing is asked of DynaPictures beyond being configured) and with what its
  \<^verbatim>\<open>generate_cocktail_image\<close> answers for this cocktail.
\<close>

record adapter =
  provider_of :: provider
  available :: bool
  answer :: "string option"

definition adapters :: "mistral_service \<Rightarrow> cocktail \<Rightarrow> adapter list" where
  "adapters self cocktail_data =
     (case stability_service self of
        None \<Rightarrow> []
      | Some s \<Rightarrow>
          [\<lparr>provider_of = StabilityAI, available = is_available s,
            answer = generate_cocktail_image s cocktail_data\<rparr>]) @
     (case dynapictures_service self of
        None \<Rightarrow> []
      | Some d \<Rightarrow>
          [\<lparr>provider_of = DynaPictures, available = True,
            answer = generate_cocktail_image d cocktail_data\<rparr>])"

definition succeeds :: "adapter \<Rightarrow> bool" where
  "succeeds a = (available a \<and> truthy (answer a))"

text \<open>
  After the words of the specification, for comparison with \<open>generate_image\<close>: the
  Fallback Orchestrator over an adapter list of any length, which the source has
  unrolled for its two services. It tries the adapters in order, skips the
  unavailable ones, stops at the first success and ends with the default asset
  reference. The second component logs the adapters whose generation was invoked.
\<close>

fun fallback_orchestrator_spec :: "adapter list \<Rightarrow> string \<times> provider list" where
  "fallback_orchestrator_spec [] = (default_image, [])"
| "fallback_orchestrator_spec (a # rest) =
     (if \<not> available a then fallback_orchestrator_spec rest
      else (case answer a of
              None \<Rightarrow> (case fallback_orchestrator_spec rest of (r, log) \<Rightarrow> (r, provider_of a # log))
            | Some ref \<Rightarrow>
                if ref \<noteq> [] then (ref, [provider_of a])
                else (case fallback_orchestrator_spec rest of (r, log) \<Rightarrow> (r, provider_of a # log))))"


section \<open>Provider adapter\<close>

text \<open>
  The code of the services (their availability checks and their HTTP calls) is
  not part of the sources; this section follows the specification of the Provider
  Adapter. A ProviderResult is a success with its asset reference or a failure
  with its reason. An adapter has a credential, the values that only stand in for
  one, and its endpoint. The network is a function from the request to what comes
  back.
\<close>

datatype provider_result = Success string | Failure string

record provider_adapter =
  adapter_name :: string
  credential :: "string option"
  placeholders :: "string list"
  endpoint :: string

record outbound_request =
  url :: string
  prompt :: string
  timeout_seconds :: nat

datatype http_response =
    TransportError
  | HttpStatus nat "string option"

text \<open>
  Modelled from the spec: the availability predicate of an adapter, missing from
  the sources: a credential is configured and is not a placeholder.
\<close>

definition adapter_available :: "provider_adapter \<Rightarrow> bool" where
  "adapter_available a =
     (case credential a of None \<Rightarrow> False | Some k \<Rightarrow> k \<noteq> [] \<and> k \<notin> set (placeholders a))"

text \<open>
  Modelled from the spec: how an adapter reads what comes back, missing from the
  sources: a transport error, a status that is not a success and a malformed body
  are failures, each with its reason.
\<close>

definition interpret_response :: "http_response \<Rightarrow> provider_result" where
  "interpret_response r =
     (case r of
        TransportError \<Rightarrow> Failure ''transient network error''
      | HttpStatus code body \<Rightarrow>
          if code < 200 \<or> 300 \<le> code then Failure ''quota/auth error''
          else (case body of
                  None \<Rightarrow> Failure ''malformed response''
                | Some ref \<Rightarrow> if ref = [] then Failure ''malformed response'' else Success ref))"

text \<open>
  Modelled from the spec: \<^verbatim>\<open>generate(prompt, cocktailId)\<close> of a Provider
  Adapter, missing from the sources. It checks the availability first and answers
  \<^verbatim>\<open>unavailable\<close> at once; otherwise it sends one request with the timeout of
  30 seconds. The second component is the list of outbound requests made.
\<close>

definition generate ::
  "provider_adapter \<Rightarrow> (outbound_request \<Rightarrow> http_response) \<Rightarrow> string \<Rightarrow> int \<Rightarrow>
     provider_result \<times> outbound_request list" where
  "generate a network prompt_text cid =
     (if \<not> adapter_available a then (Failure ''unavailable'', [])
      else
        (let req = \<lparr>url = endpoint a, prompt = prompt_text, timeout_seconds = 30\<rparr>
         in (interpret_response (network req), [req])))"


section \<open>Prompt Builder\<close>

text \<open>
  The two lookup tables as the guide lists them, in its order. The guide ends each
  with \<^verbatim>\<open># ... etc\<close>: the entries that follow are not in the sources, so the
  builder takes its tables as arguments.
\<close>

definition color_map :: "(string \<times> string) list" where
  "color_map =
     [(''rhum'', ''golden amber''),
      (''whisky'', ''deep amber''),
      (''vodka'', ''crystal clear''),
      (''gin'', ''clear with botanical hints''),
      (''tequila'', ''pale gold''),
      (''grenadine'', ''ruby red gradient'')]"

definition style_keywords :: "(string \<times> string) list" where
  "style_keywords =
     [(''tropical'', ''tropical paradise setting with palm leaves''),
      (''summer'', ''bright summer atmosphere''),
      (''winter'', ''cozy winter ambiance''),
      (''elegant'', ''sophisticated upscale bar'')]"

text \<open>Lower case of the ASCII letters; every other character is kept.\<close>

definition lower_char :: "char \<Rightarrow> char" where
  "lower_char ch =
     (let n = (of_char ch :: nat) in if 65 \<le> n \<and> n \<le> 90 then char_of (n + 32) else ch)"

definition lower :: "string \<Rightarrow> string" where
  "lower s = map lower_char s"

text \<open>
  Modelled from the spec: the lookup of the Prompt Builder, missing from the
  sources. A table is an ordered list of (pattern, descriptor) pairs; a text is
  matched by case-insensitive substring search, and the first pattern found in it
  wins. A text in which no pattern is found gives nothing.
\<close>

fun first_match :: "(string \<times> string) list \<Rightarrow> string \<Rightarrow> string option" where
  "first_match [] text = None"
| "first_match ((pattern, descriptor) # table) text =
     (if sublist pattern (lower text) then Some descriptor else first_match table text)"

text \<open>
  Modelled from the spec: the colour descriptors of the ingredients, at most one
  for each ingredient, in the order of the ingredients.
\<close>

definition color_descriptors :: "(string \<times> string) list \<Rightarrow> string list \<Rightarrow> string list" where
  "color_descriptors colors ings = List.map_filter (first_match colors) ings"

text \<open>
  Modelled from the spec: the setting descriptor of the description, at most one.
\<close>

definition setting_descriptors :: "(string \<times> string) list \<Rightarrow> string \<Rightarrow> string list" where
  "setting_descriptors styles desc =
     (case first_match styles desc of None \<Rightarrow> [] | Some d \<Rightarrow> [d])"

text \<open>The quality qualifiers, as the specification quotes them from the guide's example.\<close>

definition quality_qualifiers :: string where
  "quality_qualifiers =
     ''professional photography, high quality, detailed, 8k resolution, studio lighting, elegant presentation''"

text \<open>
  The example of a generated prompt in the guide (\<^verbatim>\<open>Exemple de prompt
  genere\<close>), its line breaks removed.
\<close>

definition documented_prompt :: string where
  "documented_prompt =
     ''A beautiful Mojito Tropical cocktail in an elegant glass, with golden amber, bright yellow tones, tropical paradise setting with palm leaves, professional photography, high quality, detailed, 8k resolution, studio lighting, elegant presentation, premium cocktail, sophisticated bar setting, crystal clear glass''"

text \<open>Python's \<^verbatim>\<open>sep.join(parts)\<close>.\<close>

fun join :: "string \<Rightarrow> string list \<Rightarrow> string" where
  "join sep [] = []"
| "join sep [x] = x"
| "join sep (x # y # ys) = x @ sep @ join sep (y # ys)"

text \<open>
  Modelled from the spec: the Prompt Builder, whose function is missing from the
  sources (the guide has its tables, its two rules and one example of its
  output). An explicit \<^verbatim>\<open>image_prompt\<close> is the prompt. Otherwise the prompt is
  the name, the colour descriptors, the setting descriptor and the quality
  qualifiers, joined by a comma and a space.
\<close>

definition build_prompt ::
  "(string \<times> string) list \<Rightarrow> (string \<times> string) list \<Rightarrow> cocktail \<Rightarrow> string" where
  "build_prompt colors styles c =
     (case image_prompt c of
        Some p \<Rightarrow>
          if p \<noteq> [] then p
          else join '', '' ([name c] @ color_descriptors colors (ingredients c) @
                 setting_descriptors styles (description c) @ [quality_qualifiers])
      | None \<Rightarrow>
          join '', '' ([name c] @ color_descriptors colors (ingredients c) @
            setting_descriptors styles (description c) @ [quality_qualifiers]))"


section \<open>Example values\<close>

definition mojito :: cocktail where
  "mojito =
     \<lparr>cocktail_id = Some 42, name = ''Mojito Tropical'',
      ingredients = [''4 cl rhum blanc'', ''jus d'ananas''],
      description = ''tropical sunset'', music_ambiance = None, image_prompt = None,
      user_prompt = ''un cocktail tropical'', image_path = None,
      created_at = ''2024-01-15T10:30:00.000Z''\<rparr>"

definition sunset :: cocktail where
  "sunset =
     \<lparr>cocktail_id = Some 1, name = ''Sunset Tropical'',
      ingredients = [''4 cl de rhum blanc'', ''1 trait de grenadine''],
      description = ''Un cocktail fruite'',
      music_ambiance = Some ''Musique lounge tropicale'',
      image_prompt = Some ''Cocktail tropical dans un verre hurricane'',
      user_prompt = ''Je veux un cocktail fruite'', image_path = None,
      created_at = ''2024-01-15T10:30:00.000Z''\<rparr>"

definition no_services :: mistral_service where
  "no_services = \<lparr>stability_service = None, dynapictures_service = None\<rparr>"

definition failing_services :: mistral_service where
  "failing_services =
     \<lparr>stability_service =
        Some \<lparr>generate_cocktail_image = (\<lambda>_. Some ''/cocktail_123.jpeg''), is_available = False\<rparr>,
      dynapictures_service = Some \<lparr>generate_cocktail_image = (\<lambda>_. None)\<rparr>\<rparr>"

definition local_services :: mistral_service where
  "local_services =
     \<lparr>stability_service =
        Some \<lparr>generate_cocktail_image = (\<lambda>_. None), is_available = True\<rparr>,
      dynapictures_service = Some \<lparr>generate_cocktail_image = (\<lambda>_. Some ''/img/42.png'')\<rparr>\<rparr>"

definition unconfigured_adapter :: provider_adapter where
  "unconfigured_adapter =
     \<lparr>adapter_name = ''Stability AI'', credential = Some ''sk-votre_cle_api_ici'',
      placeholders = [''sk-votre_cle_api_ici''],
      endpoint = ''https://api.stability.ai/v2beta/stable-image/generate/sd3''\<rparr>"


section \<open>The fallback chain\<close>

lemma generate_image_fallback_orchestrator_spec:
  "generate_image self c = fallback_orchestrator_spec (adapters self c)"
  by (auto simp: generate_image_def try_stability_def try_dynapictures_def adapters_def
      truthy_def default_image_def Let_def split: option.splits)

lemma adapters_cases:
  "adapters self c = [] \<or>
   (\<exists>a. adapters self c = [a]) \<or>
   (\<exists>a b. adapters self c = [a, b] \<and> provider_of a = StabilityAI \<and> provider_of b = DynaPictures)"
  by (auto simp: adapters_def split: option.splits)

text \<open>
  One call of \<open>generate_image\<close> invokes each configured service at most once:
  the log has no repetition and is no longer than the chain.
\<close>

lemma generate_image_calls_bounded:
  "distinct (snd (generate_image self c)) \<and>
   length (snd (generate_image self c)) \<le> length (adapters self c)"
  by (auto simp: generate_image_def try_stability_def try_dynapictures_def adapters_def
      Let_def split: option.splits)

text \<open>The same three facts for a chain of any length.\<close>

lemma fallback_orchestrator_spec_all_fail:
  "\<forall>a \<in> set as. \<not> succeeds a \<Longrightarrow> fst (fallback_orchestrator_spec as) = default_image"
  by (induction as) (auto simp: succeeds_def truthy_def split: option.splits prod.splits)

lemma fallback_orchestrator_spec_outcome:
  "fst (fallback_orchestrator_spec as) = default_image \<or>
   (\<exists>a \<in> set as. succeeds a \<and> answer a = Some (fst (fallback_orchestrator_spec as)))"
  by (induction as) (auto simp: succeeds_def truthy_def split: option.splits prod.splits)

lemma fallback_orchestrator_spec_first_success:
  assumes "k < length as" "succeeds (as ! k)" "\<forall>j<k. \<not> succeeds (as ! j)"
  shows "answer (as ! k) = Some (fst (fallback_orchestrator_spec as)) \<and>
     snd (fallback_orchestrator_spec as) = map provider_of (filter available (take (Suc k) as))"
  using assms
proof (induction as arbitrary: k)
  case Nil
  then show ?case by simp
next
  case (Cons a as)
  show ?case
  proof (cases k)
    case 0
    with Cons.prems show ?thesis
      by (auto simp: succeeds_def truthy_def split: option.splits)
  next
    case (Suc k')
    with Cons.prems have a: "\<not> succeeds a" by auto
    from Suc Cons.prems
    have "k' < length as" "succeeds (as ! k')" "\<forall>j<k'. \<not> succeeds (as ! j)"
      by auto
    from Cons.IH [OF this] a Suc show ?thesis
      by (auto simp: succeeds_def truthy_def split: option.splits prod.splits)
  qed
qed

text \<open>
  C1. Whatever services are configured, none included, and whatever the cocktail:
  when every adapter of the chain is unavailable or fails, \<open>generate_image\<close>
  returns the default reference. It is a total function, so no error leaves it,
  and what it returns is the default reference or the reference a successful
  adapter answered.
\<close>

theorem generate_image_exhausted_default:
  "((\<forall>a \<in> set (adapters self c). \<not> succeeds a) \<longrightarrow>
      fst (generate_image self c) = ''/default.webp'') \<and>
   (adapters self c = [] \<longrightarrow> generate_image self c = (''/default.webp'', [])) \<and>
   (fst (generate_image self c) = ''/default.webp'' \<or>
    (\<exists>a \<in> set (adapters self c). succeeds a \<and> answer a = Some (fst (generate_image self c))))"
  by (auto simp: generate_image_def try_stability_def try_dynapictures_def adapters_def
      succeeds_def truthy_def Let_def split: option.splits)

theorem generate_image_exhausted_default_witness:
  "map succeeds (adapters failing_services mojito) = [False, False] \<and>
   fst (generate_image failing_services mojito) = ''/default.webp'' \<and>
   adapters no_services mojito = [] \<and>
   generate_image no_services mojito = (''/default.webp'', [])"
proof -
  have h: "\<forall>a \<in> set (adapters failing_services mojito). \<not> succeeds a"
    by (simp add: adapters_def failing_services_def succeeds_def truthy_def)
  have e: "adapters no_services mojito = []"
    by (simp add: adapters_def no_services_def)
  have m: "map succeeds (adapters failing_services mojito) = [False, False]"
    by (simp add: adapters_def failing_services_def succeeds_def truthy_def)
  from generate_image_exhausted_default [of failing_services mojito] h
    generate_image_exhausted_default [of no_services mojito] e m
  show ?thesis by blast
qed

text \<open>
  C2. When adapter \<open>k\<close> of the chain (counted from 0 here) is the first that is
  available and whose generation succeeds, \<open>generate_image\<close> returns that
  adapter's answer. The generations invoked are exactly those of the available
  adapters up to \<open>k\<close>, in the order of the chain: adapter \<open>k\<close> once, each earlier
  adapter at most once, and no later adapter.
\<close>

theorem generate_image_first_success:
  assumes "k < length (adapters self c)"
    and "succeeds (adapters self c ! k)"
    and "\<forall>j<k. \<not> succeeds (adapters self c ! j)"
  shows "answer (adapters self c ! k) = Some (fst (generate_image self c)) \<and>
     snd (generate_image self c) =
       map provider_of (filter available (take (Suc k) (adapters self c))) \<and>
     count_list (snd (generate_image self c)) (provider_of (adapters self c ! k)) = 1 \<and>
     (\<forall>j<k. count_list (snd (generate_image self c)) (provider_of (adapters self c ! j)) \<le> 1) \<and>
     (\<forall>j. k < j \<and> j < length (adapters self c) \<longrightarrow>
        provider_of (adapters self c ! j) \<notin> set (snd (generate_image self c)))"
proof -
  from adapters_cases [of self c] consider
      (none) "adapters self c = []"
    | (one) a where "adapters self c = [a]"
    | (two) a b where "adapters self c = [a, b]" "provider_of a = StabilityAI"
        "provider_of b = DynaPictures"
    by blast
  then show ?thesis
  proof cases
    case none
    with assms(1) show ?thesis by simp
  next
    case one
    with assms(1) have k: "k = 0" by simp
    from assms(2) one k have "succeeds a" by simp
    with one k show ?thesis
      by (auto simp: generate_image_fallback_orchestrator_spec succeeds_def truthy_def
          split: option.splits)
  next
    case two
    with assms(1) have "k = 0 \<or> k = 1" by auto
    then show ?thesis
    proof
      assume k: "k = 0"
      from assms(2) two k have "succeeds a" by simp
      with two k show ?thesis
        by (auto simp: generate_image_fallback_orchestrator_spec succeeds_def truthy_def
            less_Suc_eq split: option.splits)
    next
      assume k: "k = 1"
      from assms(2) two k have b: "succeeds b" by simp
      from assms(3) two k have a: "\<not> succeeds a" by simp
      from a b two k show ?thesis
        by (auto simp: generate_image_fallback_orchestrator_spec succeeds_def truthy_def
            less_Suc_eq split: option.splits)
    qed
  qed
qed

theorem generate_image_first_success_witness:
  "1 < length (adapters local_services mojito) \<and>
   succeeds (adapters local_services mojito ! 1) \<and>
   \<not> succeeds (adapters local_services mojito ! 0) \<and>
   generate_image local_services mojito = (''/img/42.png'', [StabilityAI, DynaPictures])"
proof -
  have a: "adapters local_services mojito =
      [\<lparr>provider_of = StabilityAI, available = True, answer = None\<rparr>,
       \<lparr>provider_of = DynaPictures, available = True, answer = Some ''/img/42.png''\<rparr>]"
    by (simp add: adapters_def local_services_def)
  have h1: "1 < length (adapters local_services mojito)"
    by (simp add: a)
  have h2: "succeeds (adapters local_services mojito ! 1)"
    by (simp add: a succeeds_def truthy_def)
  have h3: "\<forall>j<1. \<not> succeeds (adapters local_services mojito ! j)"
    by (simp add: a succeeds_def truthy_def)
  from generate_image_first_success [OF h1 h2 h3]
  have "fst (generate_image local_services mojito) = ''/img/42.png''"
    "snd (generate_image local_services mojito) = [StabilityAI, DynaPictures]"
    by (simp_all add: a)
  with h1 h2 h3 show ?thesis by (simp add: prod_eq_iff)
qed

text \<open>
  C7. An adapter whose availability predicate is false answers \<open>generate\<close> with the
  failure \<^verbatim>\<open>unavailable\<close> and makes no outbound request, whatever the network
  would have answered. In the source's selection, the generation of a Stability
  AI service that is not available is not invoked at all.
\<close>

theorem generate_unavailable:
  "(\<not> adapter_available a \<longrightarrow> generate a network p cid = (Failure ''unavailable'', [])) \<and>
   (\<forall>s. stability_service self = Some s \<and> \<not> is_available s \<longrightarrow>
      StabilityAI \<notin> set (snd (generate_image self c)))"
  by (auto simp: generate_def generate_image_def try_stability_def try_dynapictures_def
      Let_def split: option.splits)

theorem generate_unavailable_witness:
  "\<not> adapter_available unconfigured_adapter \<and>
   generate unconfigured_adapter (\<lambda>_. HttpStatus 200 (Some ''/img/1.png'')) ''a glass'' 1 =
     (Failure ''unavailable'', []) \<and>
   stability_service failing_services =
     Some \<lparr>generate_cocktail_image = (\<lambda>_. Some ''/cocktail_123.jpeg''), is_available = False\<rparr> \<and>
   StabilityAI \<notin> set (snd (generate_image failing_services mojito))"
proof -
  have h: "\<not> adapter_available unconfigured_adapter"
    by (simp add: adapter_available_def unconfigured_adapter_def)
  have s: "stability_service failing_services =
     Some \<lparr>generate_cocktail_image = (\<lambda>_. Some ''/cocktail_123.jpeg''), is_available = False\<rparr>"
    by (simp add: failing_services_def)
  from generate_unavailable [of unconfigured_adapter
      "\<lambda>_. HttpStatus 200 (Some ''/img/1.png'')" "''a glass''" 1 failing_services mojito] h s
  show ?thesis by simp
qed

section \<open>The prompt\<close>

lemma lower_char_idem: "lower_char (lower_char ch) = lower_char ch"
  by (auto simp: lower_char_def Let_def)

lemma lower_idem: "lower (lower s) = lower s"
  by (simp add: lower_def lower_char_idem)

lemma first_match_lower: "first_match table (lower t) = first_match table t"
  by (induction table) (auto simp: lower_idem)

lemma first_match_None:
  "first_match table t = None \<longleftrightarrow> (\<forall>e \<in> set table. \<not> sublist (fst e) (lower t))"
  by (induction table) (auto split: if_splits)

lemma color_descriptors_unrecognized:
  "first_match colors i = None \<Longrightarrow>
     color_descriptors colors (xs @ i # ys) = color_descriptors colors (xs @ ys)"
  by (simp add: color_descriptors_def List.map_filter_def)

lemma sublist_join: "x \<in> set xs \<Longrightarrow> sublist x (join sep xs)"
proof (induction sep xs rule: join.induct)
  case (1 sep)
  then show ?case by simp
next
  case (2 sep y)
  then show ?case by simp
next
  case (3 sep y z zs)
  show ?case
  proof (cases "x = y")
    case True
    then show ?thesis by simp
  next
    case False
    with 3 have "sublist x (join sep (z # zs))" by simp
    then have "sublist x ((y @ sep) @ join sep (z # zs))"
      unfolding sublist_append by blast
    then show ?thesis by simp
  qed
qed

lemma rhum_found: "sublist ''rhum'' (lower ''4 cl rhum blanc'')"
  by code_simp

lemma tropical_found: "sublist ''tropical'' (lower ''tropical sunset'')"
  by code_simp

text \<open>The pattern of the table is \<^verbatim>\<open>rhum\<close>; \<^verbatim>\<open>rum\<close> does not occur in the ingredient.\<close>

lemma rum_not_found: "\<not> sublist ''rum'' (lower ''4 cl rhum blanc'')"
  by code_simp

lemma first_color:
  "first_match (color_map @ extra) ''4 cl rhum blanc'' = Some ''golden amber''"
  using rhum_found by (simp add: color_map_def)

lemma first_style:
  "first_match (style_keywords @ extra) ''tropical sunset'' =
     Some ''tropical paradise setting with palm leaves''"
  using tropical_found by (simp add: style_keywords_def)

text \<open>
  C3. A cocktail with a non-empty explicit \<^verbatim>\<open>image_prompt\<close> gets that string as
  its prompt, unchanged, whatever its name, its ingredients and its description.
  The earlier component sends the same string as the \<^verbatim>\<open>prompt\<close> of its request.
\<close>

theorem build_prompt_explicit_verbatim:
  "image_prompt c = Some p \<and> p \<noteq> [] \<longrightarrow>
     build_prompt colors styles (c\<lparr>name := n, ingredients := ings, description := d\<rparr>) = p \<and>
     generateImage_request (c\<lparr>name := n, ingredients := ings, description := d\<rparr>) = Some p"
  by (simp add: build_prompt_def generateImage_request_def truthy_def)

theorem build_prompt_explicit_verbatim_witness:
  "image_prompt sunset = Some ''Cocktail tropical dans un verre hurricane'' \<and>
   build_prompt color_map style_keywords
     (sunset\<lparr>name := ''Hiver'', ingredients := [''4 cl vodka''], description := ''winter''\<rparr>) =
     ''Cocktail tropical dans un verre hurricane'' \<and>
   generateImage_request
     (sunset\<lparr>name := ''Hiver'', ingredients := [''4 cl vodka''], description := ''winter''\<rparr>) =
     Some ''Cocktail tropical dans un verre hurricane''"
proof -
  have h: "image_prompt sunset = Some ''Cocktail tropical dans un verre hurricane'' \<and>
      ''Cocktail tropical dans un verre hurricane'' \<noteq> []"
    by (simp add: sunset_def)
  from build_prompt_explicit_verbatim [where c = sunset and colors = color_map
      and styles = style_keywords and n = "''Hiver''" and ings = "[''4 cl vodka'']"
      and d = "''winter''", THEN mp, OF h] h
  show ?thesis by simp
qed

text \<open>
  C4. With the ingredients \<^verbatim>\<open>4 cl rhum blanc\<close> and \<^verbatim>\<open>jus d'ananas\<close>, the
  description \<^verbatim>\<open>tropical sunset\<close> and no explicit \<^verbatim>\<open>image_prompt\<close>, the prompt
  contains \<^verbatim>\<open>golden amber\<close> and
  \<^verbatim>\<open>tropical paradise setting with palm leaves\<close>, whatever the name of the
  cocktail and whatever entries follow the listed ones in the two tables. The
  colour comes from the pattern \<^verbatim>\<open>rhum\<close> of the table. The search ignores
  the case of the text: a text and its lower case match the same.
\<close>

theorem build_prompt_rhum_tropical:
  "sublist ''golden amber''
     (build_prompt (color_map @ more_colors) (style_keywords @ more_styles)
        (c\<lparr>ingredients := [''4 cl rhum blanc'', ''jus d'ananas''],
           description := ''tropical sunset'', image_prompt := None\<rparr>)) \<and>
   sublist ''tropical paradise setting with palm leaves''
     (build_prompt (color_map @ more_colors) (style_keywords @ more_styles)
        (c\<lparr>ingredients := [''4 cl rhum blanc'', ''jus d'ananas''],
           description := ''tropical sunset'', image_prompt := None\<rparr>)) \<and>
   first_match table (lower t) = first_match table t"
  by (simp add: build_prompt_def color_descriptors_def setting_descriptors_def
      first_color first_style sublist_join first_match_lower del: join.simps)

text \<open>
  The example of the guide, cut at its parts: the name, the colour descriptors,
  the setting descriptor and the quality qualifiers come in this order, inside
  connecting words, and three more qualifiers follow them.
\<close>

lemma documented_prompt_parts:
  "documented_prompt =
     ''A beautiful '' @ ''Mojito Tropical'' @ '' cocktail in an elegant glass, with '' @
     ''golden amber'' @ '', bright yellow tones, '' @
     ''tropical paradise setting with palm leaves'' @ '', '' @ quality_qualifiers @
     '', premium cocktail, sophisticated bar setting, crystal clear glass''"
  by (simp add: documented_prompt_def quality_qualifiers_def)

text \<open>
  An ingredient in which no pattern of the colour table occurs, and a description
  in which no pattern of the style table occurs, give no descriptor.
\<close>

lemma unrecognized_ingredient:
  "\<forall>e \<in> set colors. \<not> sublist (fst e) (lower i) \<Longrightarrow>
     color_descriptors colors (xs @ i # ys) = color_descriptors colors (xs @ ys)"
  by (simp add: first_match_None [symmetric] color_descriptors_unrecognized)

lemma unrecognized_description:
  "\<forall>e \<in> set styles. \<not> sublist (fst e) (lower d) \<Longrightarrow> setting_descriptors styles d = []"
  by (simp add: first_match_None [symmetric] setting_descriptors_def)


section \<open>The image of a cocktail in the component\<close>

text \<open>
  The two halves of \<^verbatim>\<open>generateImage\<close> and of the effect, put together again,
  are the functions above that handle the response at once; and one run of the
  effect followed by its answer, with nothing else in flight, is \<open>useEffect\<close>.
\<close>

lemma generateImage_send_receive:
  "generateImage outcome (c, st) =
     (case generateImage_send (c, st) of
        (st1, None) \<Rightarrow> ((c, st), [])
      | (st1, Some n) \<Rightarrow>
          (case generateImage_receive outcome (c, st1) of (cs, evs) \<Rightarrow> (cs, Fetch n # evs)))"
  by (cases outcome)
    (simp_all add: generateImage_def generateImage_send_def generateImage_receive_def Let_def
      split: option.splits)

lemma useEffect_start_receive:
  "useEffect source outcome (c, st) =
     (case useEffect_start source (c, st) of
        (st1, None) \<Rightarrow> ((c, st1), [])
      | (st1, Some n) \<Rightarrow>
          (case generateImage_receive outcome (c, st1) of (cs, evs) \<Rightarrow> (cs, Fetch n # evs)))"
  by (simp add: useEffect_def useEffect_start_def generateImage_send_receive
      generateImage_send_def split: option.splits)

lemma useEffect_execute:
  assumes "in_flight cfg = []"
  shows "(case execute [Run False source, Respond 0 outcome] cfg of
            (cfg1, evs) \<Rightarrow> ((cocktail_of cfg1, state_of cfg1), evs)) =
         useEffect source outcome (cocktail_of cfg, state_of cfg)"
proof -
  obtain st1 r where s: "useEffect_start source (cocktail_of cfg, state_of cfg) = (st1, r)"
    by (metis surj_pair)
  obtain c2 st2 evs where g: "generateImage_receive outcome (cocktail_of cfg, st1) = ((c2, st2), evs)"
    by (metis surj_pair)
  show ?thesis
  proof (cases r)
    case None
    with s assms show ?thesis
      by (simp add: useEffect_start_receive)
  next
    case (Some n)
    with s g assms show ?thesis
      by (simp add: useEffect_start_receive)
  qed
qed



















text \<open>
  C10. The effect sends a generation request only when the component is shown
  from the generator, the cocktail has an \<^verbatim>\<open>image_prompt\<close>, and no image is
  there yet (neither generated nor stored). With a stored \<^verbatim>\<open>image_path\<close> it
  displays that reference and sends nothing. Shown from elsewhere, the history
  view in particular, without stored image and with no image generated, it
  displays the default image and sends nothing.
\<close>

theorem useEffect_request_only_from_generator:
  "(fetches (snd (useEffect source outcome (c, st))) \<noteq> [] \<longrightarrow>
      source = ''generator'' \<and> truthy (image_prompt c) \<and> \<not> truthy (generatedImage st) \<and>
      \<not> truthy (image_path c)) \<and>
   (truthy (image_path c) \<longrightarrow>
      snd (useEffect source outcome (c, st)) = [] \<and>
      img_src (snd (fst (useEffect source outcome (c, st)))) = image_path c) \<and>
   (source \<noteq> ''generator'' \<and> \<not> truthy (image_path c) \<and> \<not> truthy (generatedImage st) \<longrightarrow>
      snd (useEffect source outcome (c, st)) = [] \<and>
      img_src (snd (fst (useEffect source outcome (c, st)))) = Some ''/default.webp'')"
  by (simp add: useEffect_def fetches_def img_src_def default_image_def)

theorem useEffect_request_only_from_generator_witness:
  "fetches (snd (useEffect ''generator'' (OkJson (Some ''/cocktail_1.png''))
      (sunset, initial_state))) \<noteq> [] \<and>
   truthy (image_prompt sunset) \<and>
   snd (useEffect ''generator'' NotOk
      (sunset\<lparr>image_path := Some ''/cocktail_1.png''\<rparr>, initial_state)) = [] \<and>
   img_src (snd (fst (useEffect ''generator'' NotOk
      (sunset\<lparr>image_path := Some ''/cocktail_1.png''\<rparr>, initial_state)))) =
     Some ''/cocktail_1.png'' \<and>
   snd (useEffect ''history'' (OkJson (Some ''/cocktail_1.png'')) (sunset, initial_state)) = [] \<and>
   img_src (snd (fst (useEffect ''history'' (OkJson (Some ''/cocktail_1.png''))
      (sunset, initial_state)))) = Some ''/default.webp''"
proof -
  have f: "fetches (snd (useEffect ''generator'' (OkJson (Some ''/cocktail_1.png''))
      (sunset, initial_state))) \<noteq> []"
    by code_simp
  have s: "truthy (image_path (sunset\<lparr>image_path := Some ''/cocktail_1.png''\<rparr>))"
    by (simp add: truthy_def)
  have d: "''history'' \<noteq> ''generator'' \<and> \<not> truthy (image_path sunset) \<and>
      \<not> truthy (generatedImage initial_state)"
    by (simp add: truthy_def sunset_def initial_state_def)
  note g = useEffect_request_only_from_generator [where source = "''generator''"
      and outcome = "OkJson (Some ''/cocktail_1.png'')" and c = sunset and st = initial_state,
      THEN conjunct1, THEN mp, OF f]
  note k = useEffect_request_only_from_generator [where source = "''generator''"
      and outcome = NotOk and c = "sunset\<lparr>image_path := Some ''/cocktail_1.png''\<rparr>"
      and st = initial_state, THEN conjunct2, THEN conjunct1, THEN mp, OF s]
  note l = useEffect_request_only_from_generator [where source = "''history''"
      and outcome = "OkJson (Some ''/cocktail_1.png'')" and c = sunset and st = initial_state,
      THEN conjunct2, THEN conjunct2, THEN mp, OF d]
  from g have g': "truthy (image_prompt sunset)" by simp
  from k have k': "snd (useEffect ''generator'' NotOk
      (sunset\<lparr>image_path := Some ''/cocktail_1.png''\<rparr>, initial_state)) = []"
    "img_src (snd (fst (useEffect ''generator'' NotOk
      (sunset\<lparr>image_path := Some ''/cocktail_1.png''\<rparr>, initial_state)))) =
     Some ''/cocktail_1.png''"
    by simp_all
  from f g' k' l show ?thesis by (intro conjI) simp_all
qed

end
